theory Spec2Isabelle
  imports Main
begin

section \<open>The AutoEncoderCV class of the notebook adv\_newcv\_scratch\<close>

text \<open>
  The notebook \<^verbatim>\<open>docs/notebooks/tutorials/adv_newcv_scratch.ipynb\<close> builds the class
  \<^verbatim>\<open>AutoEncoderCV(BaseCV, lightning.LightningModule)\<close> step by step; its last code
  cell before the test holds the complete class. This theory embeds that class: the
  constructor, \<^verbatim>\<open>forward_cv\<close>, \<^verbatim>\<open>encode_decode\<close> and \<^verbatim>\<open>training_step\<close>.

  Python exceptions are values of the type \<open>error\<close>; a computation that may raise has the
  result type \<open>error + 'a\<close>, with \<open>Inl\<close> for the exception.
\<close>

subsection \<open>Exceptions and their sequencing\<close>

datatype error =
    IndexError
  | KeyError
  | TypeError
  | RuntimeError
  | ConfigurationError

text \<open>
  \<open>and_then r f\<close> is the Python sequencing of two statements: when the first one raises,
  the second one is never run.
\<close>

fun and_then :: "error + 'a \<Rightarrow> ('a \<Rightarrow> error + 'b) \<Rightarrow> error + 'b" where
  "and_then (Inl e) f = Inl e"
| "and_then (Inr v) f = f v"

subsection \<open>Python values of the options dictionary\<close>

text \<open>
  The values found in \<^verbatim>\<open>options\<close>: \<^verbatim>\<open>None\<close>, booleans, integers, strings and
  dictionaries with string keys. A dictionary is an association list read with
  \<open>map_of\<close>, since \<^verbatim>\<open>parse_options\<close> walks over its keys.
\<close>

datatype pyval =
    PNone
  | PBool bool
  | PInt int
  | PStr string
  | PDict "(string \<times> pyval) list"

type_synonym pydict = "(string \<times> pyval) list"

text \<open>\<^verbatim>\<open>d[k]\<close> on a dictionary raises \<^verbatim>\<open>KeyError\<close> for a missing key.\<close>

definition dict_getitem :: "pydict \<Rightarrow> string \<Rightarrow> error + pyval" where
  "dict_getitem d k = (case map_of d k of None \<Rightarrow> Inl KeyError | Some v \<Rightarrow> Inr v)"

text \<open>
  \<^verbatim>\<open>f(**v)\<close> needs a mapping: Python raises \<^verbatim>\<open>TypeError\<close> when \<^verbatim>\<open>v\<close> is
  \<^verbatim>\<open>None\<close>, a boolean, an integer or a string.
\<close>

fun unpack_kwargs :: "pyval \<Rightarrow> error + pydict" where
  "unpack_kwargs (PDict d) = Inr d"
| "unpack_kwargs PNone = Inl TypeError"
| "unpack_kwargs (PBool b) = Inl TypeError"
| "unpack_kwargs (PInt i) = Inl TypeError"
| "unpack_kwargs (PStr s) = Inl TypeError"

text \<open>
  \<^verbatim>\<open>xs[i]\<close> on a list: a negative index counts from the end, an index out of range
  raises \<^verbatim>\<open>IndexError\<close>.
\<close>

definition list_getitem :: "'a list \<Rightarrow> int \<Rightarrow> error + 'a" where
  "list_getitem xs i =
     (let n = int (length xs); j = (if i < 0 then n + i else i)
      in if 0 \<le> j \<and> j < n then Inr (xs ! nat j) else Inl IndexError)"

subsection \<open>The collaborators\<close>

text \<open>
  \<^verbatim>\<open>Normalization\<close>, \<^verbatim>\<open>FeedForward\<close> and \<^verbatim>\<open>MSELoss\<close> are imported from
  \<^verbatim>\<open>mlcolvar.core\<close>; the notebook only constructs and calls them. A constructed
  block is represented by the arguments it was constructed with.
\<close>

record Normalization =
  norm_in_features :: int
  norm_kwargs :: pydict

record FeedForward =
  ff_layers :: "int list"
  ff_kwargs :: pydict

datatype loss = MSELoss

text \<open>
  Modelled from the spec: the constructor of \<^verbatim>\<open>mlcolvar.core.transform.Normalization\<close>
  is missing from the sources. Section 4.1 of the specification: the normalizer is
  constructed "sized to the input feature count", accepting its block's configuration as
  constructor parameters.
\<close>

definition Normalization_new :: "int \<Rightarrow> pydict \<Rightarrow> Normalization" where
  "Normalization_new in_f kw = \<lparr>norm_in_features = in_f, norm_kwargs = kw\<rparr>"

text \<open>
  Modelled from the spec: the constructor of \<^verbatim>\<open>mlcolvar.core.nn.FeedForward\<close> is
  missing from the sources. Section 6 of the specification: "a feed-forward sub-module
  constructible from an ordered width list plus keyword options".
\<close>

definition FeedForward_new :: "int list \<Rightarrow> pydict \<Rightarrow> FeedForward" where
  "FeedForward_new layers kw = \<lparr>ff_layers = layers, ff_kwargs = kw\<rparr>"

text \<open>
  What calling a block computes is outside the notebook. It is a parameter of the model:
  the forward and inverse transform of a normalizer, the forward pass of a feed-forward
  network and the call of the loss (reconstruction, reference, keyword arguments). Each
  of them may raise, as any Python call may. \<open>'t\<close> is the type of tensors.
\<close>

record 't calls =
  norm_forward :: "Normalization \<Rightarrow> 't \<Rightarrow> error + 't"
  norm_inverse :: "Normalization \<Rightarrow> 't \<Rightarrow> error + 't"
  ff_forward :: "FeedForward \<Rightarrow> 't \<Rightarrow> error + 't"
  loss_call :: "loss \<Rightarrow> 't \<Rightarrow> 't \<Rightarrow> (string \<times> 't) list \<Rightarrow> error + 't"

subsection \<open>The model object\<close>

text \<open>
  The attributes of \<^verbatim>\<open>self\<close> that the class reads or writes. A block attribute is
  \<open>None\<close> while no block is bound to it (the methods test \<^verbatim>\<open>self.norm_in is not None\<close>).
  \<open>logged\<close> collects the calls of \<^verbatim>\<open>self.log\<close>: name, value and the \<^verbatim>\<open>on_epoch\<close>
  flag.
\<close>

record 't model =
  in_features :: int
  out_features :: int
  preprocessing :: "('t \<Rightarrow> error + 't) option"
  postprocessing :: "('t \<Rightarrow> error + 't) option"
  norm_in :: "Normalization option"
  encoder :: "FeedForward option"
  decoder :: "FeedForward option"
  loss_fn :: "loss option"
  training :: bool
  logged :: "(string \<times> 't \<times> bool) list"

text \<open>The keyword arguments that the constructor passes on to \<^verbatim>\<open>BaseCV.__init__\<close>.\<close>

record 't base_kwargs =
  kw_preprocessing :: "('t \<Rightarrow> error + 't) option"
  kw_postprocessing :: "('t \<Rightarrow> error + 't) option"

definition BLOCKS :: "string list" where
  "BLOCKS = [''norm_in'', ''encoder'', ''decoder'']"

text \<open>
  Modelled from the spec: \<^verbatim>\<open>BaseCV.__init__\<close> is missing from the sources. Section 4.1
  of the specification: the feature counts are the first and the last encoder width, and
  extra keyword parameters are forwarded to the base initializer; section 3: each role is
  "left unbound" until a block is constructed for it. The notebook says that
  \<^verbatim>\<open>forward\<close> applies "pre and post processing operations, if present"; they are the
  keyword parameters modelled here. A new module is in training mode and has logged
  nothing.
\<close>

definition BaseCV_init :: "int \<Rightarrow> int \<Rightarrow> 't base_kwargs \<Rightarrow> 't model" where
  "BaseCV_init in_f out_f kwargs =
     \<lparr>in_features = in_f, out_features = out_f,
      preprocessing = kw_preprocessing kwargs,
      postprocessing = kw_postprocessing kwargs,
      norm_in = None, encoder = None, decoder = None,
      loss_fn = None, training = True, logged = []\<rparr>"

text \<open>
  \<^verbatim>\<open>d.setdefault(k, v)\<close> of a Python dictionary: the entry is added when the key is
  missing, and an existing entry is kept.
\<close>

definition setdefault :: "pydict \<Rightarrow> string \<Rightarrow> pyval \<Rightarrow> pydict" where
  "setdefault d k v = (case map_of d k of None \<Rightarrow> d @ [(k, v)] | Some _ \<Rightarrow> d)"

text \<open>
  Modelled from the spec: \<^verbatim>\<open>BaseCV.parse_options\<close> is missing from the sources.
  Section 4.1 of the specification: "missing entries default to an empty configuration",
  and construction fails with ConfigurationError "if a configuration entry references an
  unknown block/option name". The notebook adds that \<^verbatim>\<open>options\<close> maps "the name of
  a block (or the optimizer)" to keyword arguments, and its test passes an
  \<^verbatim>\<open>'optimizer'\<close> entry.
\<close>

definition parse_options :: "pydict option \<Rightarrow> error + pydict" where
  "parse_options options =
     (let options = (case options of None \<Rightarrow> [] | Some d \<Rightarrow> d);
          options = fold (\<lambda>b d. setdefault d b (PDict [])) BLOCKS options
      in if list_all (\<lambda>k. k \<in> set (BLOCKS @ [''optimizer''])) (map fst options)
         then Inr options else Inl ConfigurationError)"

subsection \<open>The constructor\<close>

text \<open>
  \<^verbatim>\<open>
  def __init__(self, encoder_layers, decoder_layers=None, options=None, **kwargs):
      super().__init__(in_features=encoder_layers[0],
                       out_features=encoder_layers[-1], **kwargs)
      options = self.parse_options(options)
      if decoder_layers is None:
          decoder_layers = encoder_layers[::-1]
      self.loss_fn = MSELoss()
      o = 'norm_in'
      if ( options[o] is not False ) and (options[o] is not None):
          self.norm_in = Normalization(self.in_features,**options[o])
      o = 'encoder'
      self.encoder = FeedForward(encoder_layers, **options[o])
      o = 'decoder'
      self.decoder = FeedForward(decoder_layers, **options[o])
  \<close>
  The three block initialisations are the definitions \<open>init_norm_in\<close>, \<open>init_encoder\<close>
  and \<open>init_decoder\<close>, in the order of the source.
\<close>

definition init_norm_in :: "pydict \<Rightarrow> 't model \<Rightarrow> error + 't model" where
  "init_norm_in options self =
     and_then (dict_getitem options ''norm_in'') (\<lambda>v.
       if v \<noteq> PBool False \<and> v \<noteq> PNone
       then and_then (unpack_kwargs v) (\<lambda>kw.
              Inr (self\<lparr>norm_in := Some (Normalization_new (in_features self) kw)\<rparr>))
       else Inr self)"

definition init_encoder :: "int list \<Rightarrow> pydict \<Rightarrow> 't model \<Rightarrow> error + 't model" where
  "init_encoder encoder_layers options self =
     and_then (dict_getitem options ''encoder'') (\<lambda>v.
     and_then (unpack_kwargs v) (\<lambda>kw.
       Inr (self\<lparr>encoder := Some (FeedForward_new encoder_layers kw)\<rparr>)))"

definition init_decoder :: "int list \<Rightarrow> pydict \<Rightarrow> 't model \<Rightarrow> error + 't model" where
  "init_decoder decoder_layers options self =
     and_then (dict_getitem options ''decoder'') (\<lambda>v.
     and_then (unpack_kwargs v) (\<lambda>kw.
       Inr (self\<lparr>decoder := Some (FeedForward_new decoder_layers kw)\<rparr>)))"

definition AutoEncoderCV_init ::
  "int list \<Rightarrow> int list option \<Rightarrow> pydict option \<Rightarrow> 't base_kwargs \<Rightarrow> error + 't model" where
  "AutoEncoderCV_init encoder_layers decoder_layers options kwargs =
     and_then (list_getitem encoder_layers 0) (\<lambda>in_f.
     and_then (list_getitem encoder_layers (- 1)) (\<lambda>out_f.
     and_then (Inr (BaseCV_init in_f out_f kwargs)) (\<lambda>self.
     and_then (parse_options options) (\<lambda>options.
       let decoder_layers =
             (case decoder_layers of None \<Rightarrow> rev encoder_layers | Some d \<Rightarrow> d);
           self = self\<lparr>loss_fn := Some MSELoss\<rparr>
       in and_then (init_norm_in options self) (\<lambda>self.
          and_then (init_encoder encoder_layers options self) (\<lambda>self.
          init_decoder decoder_layers options self))))))"

subsection \<open>Forward evaluation\<close>

text \<open>
  \<^verbatim>\<open>
  def forward_cv(self, x):
      if self.norm_in is not None:
          x = self.norm_in(x)
      x = self.encoder(x)
      return x
  \<close>
  Calling an attribute that is \<^verbatim>\<open>None\<close> raises \<^verbatim>\<open>TypeError\<close>.
\<close>

definition call_block :: "'t calls \<Rightarrow> FeedForward option \<Rightarrow> 't \<Rightarrow> error + 't" where
  "call_block K b x = (case b of None \<Rightarrow> Inl TypeError | Some f \<Rightarrow> ff_forward K f x)"

definition forward_cv :: "'t calls \<Rightarrow> 't model \<Rightarrow> 't \<Rightarrow> error + 't" where
  "forward_cv K self x =
     and_then (case norm_in self of None \<Rightarrow> Inr x | Some n \<Rightarrow> norm_forward K n x) (\<lambda>x.
     call_block K (encoder self) x)"

text \<open>
  Modelled from the spec: \<^verbatim>\<open>BaseCV.forward\<close>, which \<^verbatim>\<open>encode_decode\<close> calls, is
  inherited and missing from the sources. The specification does not describe it; the
  notebook does, next to \<^verbatim>\<open>forward_cv\<close>: "forward_cv sequentially executes the blocks,
  skipping pre and post processing", while forward, "which is used when calling
  model(input) and for deploying the model, also applies pre and post processing
  operations, if present". So it is the overloaded \<^verbatim>\<open>forward_cv\<close> between the
  preprocessing and the postprocessing module, each applied when it is not \<^verbatim>\<open>None\<close>.
\<close>

definition forward :: "'t calls \<Rightarrow> 't model \<Rightarrow> 't \<Rightarrow> error + 't" where
  "forward K self x =
     and_then (case preprocessing self of None \<Rightarrow> Inr x | Some p \<Rightarrow> p x) (\<lambda>x.
     and_then (forward_cv K self x) (\<lambda>x.
     (case postprocessing self of None \<Rightarrow> Inr x | Some q \<Rightarrow> q x)))"

text \<open>
  \<^verbatim>\<open>
  def encode_decode(self, x):
      x = self.forward(x)
      x = self.decoder(x)
      if self.norm_in is not None:
          x = self.norm_in.inverse(x)
      return x
  \<close>
\<close>

definition encode_decode :: "'t calls \<Rightarrow> 't model \<Rightarrow> 't \<Rightarrow> error + 't" where
  "encode_decode K self x =
     and_then (forward K self x) (\<lambda>x.
     and_then (call_block K (decoder self) x) (\<lambda>x.
     (case norm_in self of None \<Rightarrow> Inr x | Some n \<Rightarrow> norm_inverse K n x)))"

subsection \<open>The training step\<close>

text \<open>
  \<^verbatim>\<open>
  def training_step(self, train_batch, batch_idx):
      x = train_batch['data']
      loss_kwargs = {}
      if 'weights' in train_batch:
          loss_kwargs['weights'] = train_batch['weights']
      x_hat = self.encode_decode(x)
      if 'target' in train_batch:
          x_ref = train_batch['target']
      else:
          x_ref = x
      loss = self.loss_fn(x_hat, x_ref, **loss_kwargs)
      name = 'train' if self.training else 'valid'
      self.log(f'{name}_loss', loss, on_epoch=True)
      return loss
  \<close>
  A batch is a dictionary from keys to tensors. An exception does not undo what was done
  before it, so the step returns the model object next to its result in both cases.
\<close>

type_synonym 't batch = "string \<rightharpoonup> 't"

definition batch_getitem :: "'t batch \<Rightarrow> string \<Rightarrow> error + 't" where
  "batch_getitem b k = (case b k of None \<Rightarrow> Inl KeyError | Some v \<Rightarrow> Inr v)"

definition log :: "'t model \<Rightarrow> string \<Rightarrow> 't \<Rightarrow> bool \<Rightarrow> 't model" where
  "log self name v on_epoch = self\<lparr>logged := logged self @ [(name, v, on_epoch)]\<rparr>"

definition weights_kwargs :: "'t batch \<Rightarrow> (string \<times> 't) list" where
  "weights_kwargs train_batch =
     (case train_batch ''weights'' of None \<Rightarrow> [] | Some w \<Rightarrow> [(''weights'', w)])"

definition reference :: "'t batch \<Rightarrow> 't \<Rightarrow> 't" where
  "reference train_batch x = (case train_batch ''target'' of None \<Rightarrow> x | Some t \<Rightarrow> t)"

definition call_loss :: "'t calls \<Rightarrow> loss option \<Rightarrow> 't \<Rightarrow> 't \<Rightarrow> (string \<times> 't) list \<Rightarrow> error + 't" where
  "call_loss K l x_hat x_ref kw =
     (case l of None \<Rightarrow> Inl TypeError | Some f \<Rightarrow> loss_call K f x_hat x_ref kw)"

definition training_step ::
  "'t calls \<Rightarrow> 't model \<Rightarrow> 't batch \<Rightarrow> nat \<Rightarrow> (error + 't) \<times> 't model" where
  "training_step K self train_batch batch_idx =
     (case batch_getitem train_batch ''data'' of
        Inl e \<Rightarrow> (Inl e, self)
      | Inr x \<Rightarrow>
          let loss_kwargs = weights_kwargs train_batch in
          (case encode_decode K self x of
             Inl e \<Rightarrow> (Inl e, self)
           | Inr x_hat \<Rightarrow>
               let x_ref = reference train_batch x in
               (case call_loss K (loss_fn self) x_hat x_ref loss_kwargs of
                  Inl e \<Rightarrow> (Inl e, self)
                | Inr loss \<Rightarrow>
                    let name = (if training self then ''train'' else ''valid'');
                        self = log self (name @ ''_loss'') loss True
                    in (Inr loss, self))))"

subsection \<open>Python truth values\<close>

text \<open>
  The truth-value test of Python on the values of \<open>pyval\<close>: \<^verbatim>\<open>None\<close>, \<^verbatim>\<open>False\<close>,
  \<^verbatim>\<open>0\<close>, the empty string and the empty dictionary are false. The constructor never
  applies it (it compares with \<^verbatim>\<open>is not False\<close> and \<^verbatim>\<open>is not None\<close>); it is here to
  state which entries count as falsy.
\<close>

definition py_falsy :: "pyval \<Rightarrow> bool" where
  "py_falsy v = (v = PNone \<or> v = PBool False \<or> v = PInt 0 \<or> v = PStr [] \<or> v = PDict [])"

subsection \<open>Concrete collaborators and models for the examples\<close>

text \<open>
  Tensors are integers in the examples. The normalizer subtracts 10 and its inverse adds
  10; a feed-forward network doubles its input and adds its first width; the loss is the
  squared difference. \<open>failing_calls\<close> raises in every collaborator.
\<close>

definition demo_calls :: "int calls" where
  "demo_calls =
     \<lparr>norm_forward = (\<lambda>n x. Inr (x - 10)),
      norm_inverse = (\<lambda>n x. Inr (x + 10)),
      ff_forward = (\<lambda>f x. Inr (2 * x + (case ff_layers f of [] \<Rightarrow> 0 | w # _ \<Rightarrow> w))),
      loss_call = (\<lambda>l a b kw. Inr ((a - b) * (a - b)))\<rparr>"

definition failing_calls :: "int calls" where
  "failing_calls =
     \<lparr>norm_forward = (\<lambda>n x. Inl RuntimeError),
      norm_inverse = (\<lambda>n x. Inl RuntimeError),
      ff_forward = (\<lambda>f x. Inl RuntimeError),
      loss_call = (\<lambda>l a b kw. Inl RuntimeError)\<rparr>"

definition no_kwargs :: "int base_kwargs" where
  "no_kwargs = \<lparr>kw_preprocessing = None, kw_postprocessing = None\<rparr>"

definition shift100 :: "int \<Rightarrow> error + int" where
  "shift100 x = Inr (x + 100)"

definition pre_kwargs :: "int base_kwargs" where
  "pre_kwargs = \<lparr>kw_preprocessing = Some shift100, kw_postprocessing = None\<rparr>"

definition demo_norm :: Normalization where
  "demo_norm = \<lparr>norm_in_features = 8, norm_kwargs = []\<rparr>"

definition demo_encoder :: FeedForward where
  "demo_encoder = \<lparr>ff_layers = [8, 6, 4, 2], ff_kwargs = []\<rparr>"

definition demo_decoder :: FeedForward where
  "demo_decoder = \<lparr>ff_layers = [2, 4, 6, 8], ff_kwargs = []\<rparr>"

text \<open>
  The model that \<^verbatim>\<open>AutoEncoderCV([8, 6, 4, 2])\<close> constructs, with the preprocessing
  module \<open>pre\<close> and the normalizer \<open>n\<close> (\<open>None\<close> when it is turned off).
\<close>

definition demo_model ::
  "(int \<Rightarrow> error + int) option \<Rightarrow> Normalization option \<Rightarrow> int model" where
  "demo_model pre n =
     \<lparr>in_features = 8, out_features = 2, preprocessing = pre, postprocessing = None,
      norm_in = n, encoder = Some demo_encoder, decoder = Some demo_decoder,
      loss_fn = Some MSELoss, training = True, logged = []\<rparr>"

section \<open>Properties\<close>

subsection \<open>Evaluation rules for the examples\<close>

lemmas init_eval = AutoEncoderCV_init_def list_getitem_def BaseCV_init_def parse_options_def
  BLOCKS_def setdefault_def init_norm_in_def init_encoder_def init_decoder_def dict_getitem_def
  Normalization_new_def FeedForward_new_def no_kwargs_def pre_kwargs_def
  demo_model_def demo_norm_def demo_encoder_def demo_decoder_def

lemmas run_eval = demo_calls_def failing_calls_def forward_cv_def forward_def
  encode_decode_def call_block_def training_step_def batch_getitem_def log_def
  weights_kwargs_def reference_def call_loss_def shift100_def
  demo_model_def demo_norm_def demo_encoder_def demo_decoder_def

subsection \<open>Helper facts about sequencing and the constructor\<close>

lemma and_then_Inr_iff:
  "and_then r f = Inr y \<longleftrightarrow> (\<exists>v. r = Inr v \<and> f v = Inr y)"
  by (cases r) simp_all

lemma and_then_return: "and_then r Inr = r"
  by (cases r) simp_all

lemma init_decoder_Inr:
  "init_decoder ls options self = Inr m \<Longrightarrow>
     \<exists>kw. m = self\<lparr>decoder := Some (FeedForward_new ls kw)\<rparr>"
  by (auto simp: init_decoder_def and_then_Inr_iff)

lemma init_encoder_Inr:
  "init_encoder ls options self = Inr m \<Longrightarrow>
     \<exists>kw. m = self\<lparr>encoder := Some (FeedForward_new ls kw)\<rparr>"
  by (auto simp: init_encoder_def and_then_Inr_iff)

text \<open>
  A successful construction went through every statement of the constructor: both
  reads of \<^verbatim>\<open>encoder_layers\<close>, \<^verbatim>\<open>parse_options\<close>, the normalizer step, and the two
  feed-forward constructions.
\<close>

lemma init_Inr:
  assumes "AutoEncoderCV_init encoder_layers decoder_layers options kwargs = Inr m"
  shows "\<exists>in_f out_f opts m1 kwe kwd.
           list_getitem encoder_layers 0 = Inr in_f \<and>
           list_getitem encoder_layers (- 1) = Inr out_f \<and>
           parse_options options = Inr opts \<and>
           init_norm_in opts ((BaseCV_init in_f out_f kwargs)\<lparr>loss_fn := Some MSELoss\<rparr>)
             = Inr m1 \<and>
           m = m1\<lparr>encoder := Some (FeedForward_new encoder_layers kwe),
                  decoder := Some (FeedForward_new
                    (case decoder_layers of None \<Rightarrow> rev encoder_layers | Some d \<Rightarrow> d) kwd)\<rparr>"
proof -
  from assms obtain in_f out_f opts m1 m2 where
    a: "list_getitem encoder_layers 0 = Inr in_f"
       "list_getitem encoder_layers (- 1) = Inr out_f"
       "parse_options options = Inr opts"
       "init_norm_in opts ((BaseCV_init in_f out_f kwargs)\<lparr>loss_fn := Some MSELoss\<rparr>) = Inr m1"
       "init_encoder encoder_layers opts m1 = Inr m2"
       "init_decoder (case decoder_layers of None \<Rightarrow> rev encoder_layers | Some d \<Rightarrow> d)
          opts m2 = Inr m"
    unfolding AutoEncoderCV_init_def by (auto simp: and_then_Inr_iff Let_def)
  from init_encoder_Inr [OF a(5)] init_decoder_Inr [OF a(6)] a(1-4)
  show ?thesis by blast
qed

lemma map_of_setdefault:
  "map_of d k = Some v \<Longrightarrow> map_of (setdefault d b w) k = Some v"
  by (auto simp: setdefault_def split: option.splits)

lemma parse_options_keeps:
  assumes "parse_options (Some options) = Inr opts" and "map_of options k = Some v"
  shows "map_of opts k = Some v"
  using assms
  by (auto simp: parse_options_def BLOCKS_def Let_def map_of_setdefault split: if_splits)

lemma init_norm_in_Inr:
  assumes "init_norm_in opts self = Inr m1" and "map_of opts ''norm_in'' = Some v"
  shows "m1 = (if v = PNone \<or> v = PBool False then self
               else self\<lparr>norm_in := Some (Normalization_new (in_features self)
                      (case v of PDict kw \<Rightarrow> kw | _ \<Rightarrow> []))\<rparr>)
         \<and> (v = PNone \<or> v = PBool False \<or> (\<exists>kw. v = PDict kw))"
  using assms
  by (cases v) (auto simp: init_norm_in_def dict_getitem_def split: if_splits)

lemma init_norm_in_attr:
  assumes "AutoEncoderCV_init encoder_layers decoder_layers (Some options) kwargs = Inr m"
    and "map_of options ''norm_in'' = Some v"
  shows "(norm_in m = None) = (v = PNone \<or> v = PBool False)"
proof -
  from init_Inr [OF assms(1)] obtain in_f out_f opts m1 kwe kwd where
    p: "parse_options (Some options) = Inr opts"
    and n: "init_norm_in opts ((BaseCV_init in_f out_f kwargs)\<lparr>loss_fn := Some MSELoss\<rparr>)
              = Inr m1"
    and m: "m = m1\<lparr>encoder := Some (FeedForward_new encoder_layers kwe),
                  decoder := Some (FeedForward_new
                    (case decoder_layers of None \<Rightarrow> rev encoder_layers | Some d \<Rightarrow> d) kwd)\<rparr>"
    by blast
  from init_norm_in_Inr [OF n parse_options_keeps [OF p assms(2)]] m
  show ?thesis by (auto simp: BaseCV_init_def)
qed

lemma init_blocks:
  assumes "AutoEncoderCV_init encoder_layers decoder_layers options kwargs = Inr m"
  shows "\<exists>e d. encoder m = Some e \<and> decoder m = Some d \<and> ff_layers e = encoder_layers
           \<and> ff_layers d = (case decoder_layers of None \<Rightarrow> rev encoder_layers | Some l \<Rightarrow> l)
           \<and> preprocessing m = kw_preprocessing kwargs
           \<and> postprocessing m = kw_postprocessing kwargs
           \<and> loss_fn m = Some MSELoss"
proof -
  from init_Inr [OF assms] obtain in_f out_f opts m1 kwe kwd where
    n: "init_norm_in opts ((BaseCV_init in_f out_f kwargs)\<lparr>loss_fn := Some MSELoss\<rparr>)
          = Inr m1"
    and m: "m = m1\<lparr>encoder := Some (FeedForward_new encoder_layers kwe),
                  decoder := Some (FeedForward_new
                    (case decoder_layers of None \<Rightarrow> rev encoder_layers | Some d \<Rightarrow> d) kwd)\<rparr>"
    by blast
  from n have "preprocessing m1 = kw_preprocessing kwargs
      \<and> postprocessing m1 = kw_postprocessing kwargs \<and> loss_fn m1 = Some MSELoss"
    by (auto simp: init_norm_in_def and_then_Inr_iff BaseCV_init_def split: if_splits)
  with m show ?thesis by (simp add: FeedForward_new_def)
qed

text \<open>
  With the default options every non-empty width list constructs a model: the
  constructor is total there, so the statements below about constructed models are not
  empty.
\<close>

lemma init_default_options_succeeds:
  assumes "encoder_layers \<noteq> []"
  shows "\<exists>m. AutoEncoderCV_init encoder_layers decoder_layers None kwargs = Inr m"
proof -
  from assms have "0 < length encoder_layers" by simp
  then show ?thesis by (simp add: init_eval Let_def)
qed

lemma training_step_failure_logs_nothing:
  "fst (training_step K self train_batch batch_idx) = Inl err \<Longrightarrow>
     snd (training_step K self train_batch batch_idx) = self"
  by (auto simp: training_step_def Let_def split: sum.splits)

subsection \<open>Model construction\<close>

text \<open>
  Claim C1. For every encoder width list of length at least 2, when no decoder width
  list is given, the decoder of the constructed model was built from the exact reverse
  of the encoder widths.
\<close>

theorem default_decoder_layers_reversed:
  assumes "2 \<le> length encoder_layers"
    and "AutoEncoderCV_init encoder_layers None options kwargs = Inr m"
  shows "map_option ff_layers (decoder m) = Some (rev encoder_layers)"
  using init_Inr [OF assms(2)] by (auto simp: FeedForward_new_def)

text \<open>The scenario of the specification: widths 8, 6, 4, 2 give decoder widths 2, 4, 6, 8.\<close>

theorem default_decoder_layers_reversed_witness:
  "2 \<le> length [8, 6, 4, 2 :: int]
   \<and> AutoEncoderCV_init [8, 6, 4, 2] None None no_kwargs = Inr (demo_model None (Some demo_norm))
   \<and> map_option ff_layers (decoder (demo_model None (Some demo_norm))) = Some [2, 4, 6, 8]"
proof -
  have len: "2 \<le> length [8, 6, 4, 2 :: int]" by simp
  have run: "AutoEncoderCV_init [8, 6, 4, 2] None None no_kwargs
               = Inr (demo_model None (Some demo_norm))"
    by (simp add: init_eval)
  from default_decoder_layers_reversed [OF len run] len run show ?thesis by simp
qed

text \<open>
  Claim C3, as stated, fails: the constructor has no check on the number of widths. A
  list with one width constructs a model whose input and output feature counts are both
  that width.
\<close>

theorem one_width_constructs_counterexample:
  "length [8 :: int] < 2 \<and>
   AutoEncoderCV_init [8] None None no_kwargs =
     Inr \<lparr>in_features = 8, out_features = 8, preprocessing = None, postprocessing = None,
          norm_in = Some \<lparr>norm_in_features = 8, norm_kwargs = []\<rparr>,
          encoder = Some \<lparr>ff_layers = [8], ff_kwargs = []\<rparr>,
          decoder = Some \<lparr>ff_layers = [8], ff_kwargs = []\<rparr>,
          loss_fn = Some MSELoss, training = True, logged = []\<rparr>"
  by (simp add: init_eval)

text \<open>
  Claim C3, amended. For the empty encoder width list construction fails, whatever the
  other arguments are: reading \<^verbatim>\<open>encoder_layers[0]\<close> raises \<^verbatim>\<open>IndexError\<close> before
  anything is constructed.
\<close>

theorem no_width_fails:
  "AutoEncoderCV_init [] decoder_layers options kwargs = Inl IndexError"
  by (simp add: AutoEncoderCV_init_def list_getitem_def)

text \<open>
  Claim C4, as stated, fails: the constructor compares the entry of \<^verbatim>\<open>'norm_in'\<close> with
  \<^verbatim>\<open>False\<close> and \<^verbatim>\<open>None\<close> by identity and does not test its truth value. The empty
  mapping is falsy and the normalizer is constructed all the same; 0 is falsy, passes
  the comparison and makes \<^verbatim>\<open>**options[o]\<close> raise \<^verbatim>\<open>TypeError\<close>.
\<close>

theorem falsy_entries_counterexample:
  "py_falsy (PDict []) \<and> py_falsy (PInt 0)
   \<and> AutoEncoderCV_init [8, 6, 4, 2] None (Some [(''norm_in'', PDict [])]) no_kwargs
       = Inr (demo_model None (Some demo_norm))
   \<and> norm_in (demo_model None (Some demo_norm)) = Some demo_norm
   \<and> AutoEncoderCV_init [8, 6, 4, 2] None (Some [(''norm_in'', PInt 0)]) no_kwargs
       = Inl TypeError"
  by (simp add: init_eval py_falsy_def)

text \<open>
  Claim C4, amended. For the normalizer block: in every model that the constructor
  returns, the block is left out exactly when its entry in the configuration is
  \<^verbatim>\<open>None\<close> or \<^verbatim>\<open>False\<close>; with any other entry the block is constructed.
\<close>

theorem norm_in_suppressed_iff:
  assumes "AutoEncoderCV_init encoder_layers decoder_layers (Some options) kwargs = Inr m"
    and "map_of options ''norm_in'' = Some v"
  shows "(norm_in m = None) = (v = PNone \<or> v = PBool False)"
  using assms by (rule init_norm_in_attr)

theorem norm_in_suppressed_iff_witness:
  "AutoEncoderCV_init [8, 6, 4, 2] None (Some [(''norm_in'', PBool False)]) no_kwargs
     = Inr (demo_model None None)
   \<and> map_of [(''norm_in'', PBool False)] ''norm_in'' = Some (PBool False)
   \<and> norm_in (demo_model None None) = None"
proof -
  have run: "AutoEncoderCV_init [8, 6, 4, 2] None (Some [(''norm_in'', PBool False)]) no_kwargs
     = Inr (demo_model None None)"
    by (simp add: init_eval)
  have look: "map_of [(''norm_in'', PBool False)] ''norm_in'' = Some (PBool False)" by simp
  from norm_in_suppressed_iff [OF run look] run look show ?thesis by simp
qed

text \<open>
  Claim C5 at its failing input. The docstring of the constructor lists the blocks
  \<^verbatim>\<open>['norm_in', 'encoder', 'decoder']\<close> and says "Set 'block_name' = None or False to
  turn off that block", but only the \<^verbatim>\<open>norm_in\<close> step tests its entry. With
  \<^verbatim>\<open>options = {'encoder': None}\<close> the statement
  \<^verbatim>\<open>FeedForward(encoder_layers, **options[o])\<close> raises \<^verbatim>\<open>TypeError\<close>, and so does a
  \<^verbatim>\<open>'decoder'\<close> entry of \<^verbatim>\<open>False\<close>: no model is constructed.
\<close>

theorem disabled_encoder_raises:
  "AutoEncoderCV_init [8, 6, 4, 2] None (Some [(''encoder'', PNone)]) no_kwargs
     = Inl TypeError
   \<and> AutoEncoderCV_init [8, 6, 4, 2] None (Some [(''decoder'', PBool False)]) no_kwargs
     = Inl TypeError"
  by (simp add: init_eval)

subsection \<open>Forward evaluation\<close>

text \<open>
  Claim C6. For every model constructed with the normalizer turned off (entry
  \<^verbatim>\<open>None\<close> or \<^verbatim>\<open>False\<close>) and every input, \<^verbatim>\<open>forward_cv\<close> is the encoder alone,
  applied to the raw input; the encoder is the one built from the encoder widths.
\<close>

theorem project_without_normalizer:
  assumes "AutoEncoderCV_init encoder_layers decoder_layers (Some options) kwargs = Inr m"
    and "map_of options ''norm_in'' = Some v"
    and "v = PNone \<or> v = PBool False"
  shows "\<exists>e. encoder m = Some e \<and> ff_layers e = encoder_layers
             \<and> forward_cv K m x = ff_forward K e x"
proof -
  from init_norm_in_attr [OF assms(1,2)] assms(3) have "norm_in m = None" by simp
  with init_blocks [OF assms(1)] show ?thesis
    by (auto simp: forward_cv_def call_block_def)
qed

theorem project_without_normalizer_witness:
  "AutoEncoderCV_init [8, 6, 4, 2] None (Some [(''norm_in'', PNone)]) no_kwargs
     = Inr (demo_model None None)
   \<and> map_of [(''norm_in'', PNone)] ''norm_in'' = Some PNone
   \<and> forward_cv demo_calls (demo_model None None) 5 = ff_forward demo_calls demo_encoder 5
   \<and> forward_cv demo_calls (demo_model None None) 5 = Inr 18"
proof -
  have run: "AutoEncoderCV_init [8, 6, 4, 2] None (Some [(''norm_in'', PNone)]) no_kwargs
     = Inr (demo_model None None)"
    by (simp add: init_eval)
  have look: "map_of [(''norm_in'', PNone)] ''norm_in'' = Some PNone" by simp
  from project_without_normalizer [OF run look, of demo_calls 5] run look
  show ?thesis by (auto simp: demo_model_def demo_calls_def demo_encoder_def)
qed

text \<open>
  Claim C7, as stated, fails: \<^verbatim>\<open>encode_decode\<close> starts with \<^verbatim>\<open>self.forward(x)\<close>, not
  with \<^verbatim>\<open>self.forward_cv(x)\<close>, so a preprocessing module of the model runs before the
  normalizer. With the preprocessing \<open>shift100\<close> the reconstruction of 5 is 408, while
  the four stages alone give 8.
\<close>

theorem reconstruct_with_preprocessing_counterexample:
  "AutoEncoderCV_init [8, 6, 4, 2] None None pre_kwargs
     = Inr (demo_model (Some shift100) (Some demo_norm))
   \<and> norm_in (demo_model (Some shift100) (Some demo_norm)) = Some demo_norm
   \<and> encoder (demo_model (Some shift100) (Some demo_norm)) = Some demo_encoder
   \<and> decoder (demo_model (Some shift100) (Some demo_norm)) = Some demo_decoder
   \<and> encode_decode demo_calls (demo_model (Some shift100) (Some demo_norm)) 5 = Inr 408
   \<and> and_then (norm_forward demo_calls demo_norm 5) (\<lambda>a.
      and_then (ff_forward demo_calls demo_encoder a) (\<lambda>b.
      and_then (ff_forward demo_calls demo_decoder b) (\<lambda>c.
      norm_inverse demo_calls demo_norm c))) = Inr 8"
  by (simp add: init_eval run_eval)

text \<open>
  Claim C7, amended. For every model with the normalizer present and no preprocessing
  or postprocessing module, and every input, \<^verbatim>\<open>encode_decode\<close> is the normalizer, the
  encoder, the decoder and the inverse of the normalizer, in this order and nothing
  else; the first stage that raises ends the computation.
\<close>

theorem reconstruct_with_normalizer:
  assumes "norm_in m = Some n" and "encoder m = Some e" and "decoder m = Some d"
    and "preprocessing m = None" and "postprocessing m = None"
  shows "encode_decode K m x =
           and_then (norm_forward K n x) (\<lambda>a.
           and_then (ff_forward K e a) (\<lambda>b.
           and_then (ff_forward K d b) (\<lambda>c.
           norm_inverse K n c)))"
proof (cases "norm_forward K n x")
  case (Inl err)
  with assms show ?thesis
    by (simp add: encode_decode_def forward_def forward_cv_def)
next
  case (Inr a)
  with assms show ?thesis
    by (cases "ff_forward K e a")
       (simp_all add: encode_decode_def forward_def forward_cv_def call_block_def)
qed

theorem reconstruct_with_normalizer_witness:
  "norm_in (demo_model None (Some demo_norm)) = Some demo_norm
   \<and> encoder (demo_model None (Some demo_norm)) = Some demo_encoder
   \<and> decoder (demo_model None (Some demo_norm)) = Some demo_decoder
   \<and> preprocessing (demo_model None (Some demo_norm)) = None
   \<and> postprocessing (demo_model None (Some demo_norm)) = None
   \<and> encode_decode demo_calls (demo_model None (Some demo_norm)) 5 = Inr 8"
proof -
  have h: "norm_in (demo_model None (Some demo_norm)) = Some demo_norm"
    "encoder (demo_model None (Some demo_norm)) = Some demo_encoder"
    "decoder (demo_model None (Some demo_norm)) = Some demo_decoder"
    "preprocessing (demo_model None (Some demo_norm)) = None"
    "postprocessing (demo_model None (Some demo_norm)) = None"
    by (simp_all add: demo_model_def)
  from reconstruct_with_normalizer [OF h, of demo_calls 5] h show ?thesis
    by (simp add: demo_calls_def demo_norm_def demo_encoder_def demo_decoder_def)
qed

text \<open>
  Claim C10, as stated, fails for the same reason as C7: a model constructed with the
  normalizer turned off and a preprocessing module passes its input through the
  preprocessing first. The reconstruction of 5 is 438, the decoder after the encoder on
  the raw input gives 38.
\<close>

theorem reconstruct_without_normalizer_counterexample:
  "AutoEncoderCV_init [8, 6, 4, 2] None (Some [(''norm_in'', PNone)]) pre_kwargs
     = Inr (demo_model (Some shift100) None)
   \<and> encoder (demo_model (Some shift100) None) = Some demo_encoder
   \<and> decoder (demo_model (Some shift100) None) = Some demo_decoder
   \<and> encode_decode demo_calls (demo_model (Some shift100) None) 5 = Inr 438
   \<and> and_then (ff_forward demo_calls demo_encoder 5) (ff_forward demo_calls demo_decoder)
       = Inr 38"
  by (simp add: init_eval run_eval)

text \<open>
  Claim C10, amended. For every model constructed with the normalizer turned off and
  without preprocessing and postprocessing modules, and every input, \<^verbatim>\<open>encode_decode\<close>
  is the decoder after the encoder on the raw input, with no inverse normalization.
\<close>

theorem reconstruct_without_normalizer:
  assumes "AutoEncoderCV_init encoder_layers decoder_layers (Some options) kwargs = Inr m"
    and "map_of options ''norm_in'' = Some v"
    and "v = PNone \<or> v = PBool False"
    and "kw_preprocessing kwargs = None" and "kw_postprocessing kwargs = None"
  shows "\<exists>e d. encoder m = Some e \<and> decoder m = Some d
           \<and> encode_decode K m x = and_then (ff_forward K e x) (ff_forward K d)"
proof -
  from init_norm_in_attr [OF assms(1,2)] assms(3) have n: "norm_in m = None" by simp
  from init_blocks [OF assms(1)] assms(4,5) obtain e d where
    b: "encoder m = Some e" "decoder m = Some d"
       "preprocessing m = None" "postprocessing m = None"
    by auto
  have "encode_decode K m x = and_then (ff_forward K e x) (ff_forward K d)"
    by (cases "ff_forward K e x")
       (simp_all add: encode_decode_def forward_def forward_cv_def call_block_def
          and_then_return n b)
  with b show ?thesis by simp
qed

theorem reconstruct_without_normalizer_witness:
  "AutoEncoderCV_init [8, 6, 4, 2] None (Some [(''norm_in'', PNone)]) no_kwargs
     = Inr (demo_model None None)
   \<and> map_of [(''norm_in'', PNone)] ''norm_in'' = Some PNone
   \<and> kw_preprocessing no_kwargs = None \<and> kw_postprocessing no_kwargs = None
   \<and> encode_decode demo_calls (demo_model None None) 5 = Inr 38"
proof -
  have run: "AutoEncoderCV_init [8, 6, 4, 2] None (Some [(''norm_in'', PNone)]) no_kwargs
     = Inr (demo_model None None)"
    by (simp add: init_eval)
  have look: "map_of [(''norm_in'', PNone)] ''norm_in'' = Some PNone" by simp
  have kw: "kw_preprocessing no_kwargs = None" "kw_postprocessing no_kwargs = None"
    by (simp_all add: no_kwargs_def)
  from reconstruct_without_normalizer [OF run look _ kw, of demo_calls 5] run look kw
  show ?thesis by (auto simp: run_eval)
qed

subsection \<open>The training step\<close>

text \<open>
  Claim C2. For every batch with data \<open>x\<close> whose reconstruction is \<open>x_hat\<close>, the loss of
  the training step is computed against the batch's \<^verbatim>\<open>'target'\<close> when that key is
  present, and against \<open>x\<close> itself when it is absent.
\<close>

theorem training_step_reference:
  assumes "train_batch ''data'' = Some x"
    and "encode_decode K self x = Inr x_hat"
  shows "fst (training_step K self train_batch batch_idx) =
           call_loss K (loss_fn self) x_hat
             (case train_batch ''target'' of Some t \<Rightarrow> t | None \<Rightarrow> x)
             (weights_kwargs train_batch)"
  using assms
  by (simp add: training_step_def batch_getitem_def reference_def Let_def
           split: sum.splits option.splits)

text \<open>
  The reconstruction of 5 is 8: with the target 7 the loss is 1, without a target it is
  9, the squared distance to the data.
\<close>

theorem training_step_reference_witness:
  "[''data'' \<mapsto> 5, ''target'' \<mapsto> 7] ''data'' = Some (5 :: int)
   \<and> encode_decode demo_calls (demo_model None (Some demo_norm)) 5 = Inr 8
   \<and> fst (training_step demo_calls (demo_model None (Some demo_norm))
            [''data'' \<mapsto> 5, ''target'' \<mapsto> 7] 0) = Inr 1
   \<and> fst (training_step demo_calls (demo_model None (Some demo_norm))
            [''data'' \<mapsto> 5] 0) = Inr 9"
proof -
  have d1: "[''data'' \<mapsto> 5, ''target'' \<mapsto> 7] ''data'' = Some (5 :: int)" by simp
  have d2: "[''data'' \<mapsto> 5] ''data'' = Some (5 :: int)" by simp
  have run: "encode_decode demo_calls (demo_model None (Some demo_norm)) 5 = Inr 8"
    by (simp add: run_eval)
  from training_step_reference [where train_batch = "[''data'' \<mapsto> 5, ''target'' \<mapsto> 7]"
         and batch_idx = 0, OF d1 run]
       training_step_reference [where train_batch = "[''data'' \<mapsto> 5]"
         and batch_idx = 0, OF d2 run] d1 run
  show ?thesis by (simp add: call_loss_def demo_calls_def demo_model_def weights_kwargs_def)
qed

text \<open>
  Claim C8. For every batch without the key \<^verbatim>\<open>'data'\<close> the training step raises
  \<^verbatim>\<open>KeyError\<close> (the MissingKeyError of the specification) and leaves the model as it
  was, so nothing is logged. This holds for every behaviour of the collaborators, also
  when each of them would raise an error of its own: the lookup comes before any
  forward computation.
\<close>

theorem training_step_missing_data:
  assumes "train_batch ''data'' = None"
  shows "training_step K self train_batch batch_idx = (Inl KeyError, self)"
  using assms by (simp add: training_step_def batch_getitem_def)

theorem training_step_missing_data_witness:
  "[''target'' \<mapsto> 7 :: int] ''data'' = None
   \<and> training_step failing_calls (demo_model None None) [''target'' \<mapsto> 7] 0
       = (Inl KeyError, demo_model None None)"
proof -
  have h: "[''target'' \<mapsto> 7 :: int] ''data'' = None" by simp
  from training_step_missing_data [where train_batch = "[''target'' \<mapsto> 7 :: int]", OF h] h
  show ?thesis by simp
qed

text \<open>
  Claim C9. For every batch with data on which the reconstruction and the loss are
  computed, the training step logs exactly one metric, named \<^verbatim>\<open>train_loss\<close> in
  training mode and \<^verbatim>\<open>valid_loss\<close> in evaluation mode, whose value is the loss, and
  returns that loss.
\<close>

theorem training_step_logs_and_returns:
  assumes "train_batch ''data'' = Some x"
    and "encode_decode K self x = Inr x_hat"
    and "call_loss K (loss_fn self) x_hat (reference train_batch x)
           (weights_kwargs train_batch) = Inr loss"
  shows "training_step K self train_batch batch_idx =
           (Inr loss,
            self\<lparr>logged := logged self @
              [(if training self then ''train_loss'' else ''valid_loss'', loss, True)]\<rparr>)"
  using assms
  by (simp add: training_step_def batch_getitem_def log_def Let_def)

theorem training_step_logs_and_returns_witness:
  "[''data'' \<mapsto> 5 :: int] ''data'' = Some 5
   \<and> encode_decode demo_calls (demo_model None (Some demo_norm)) 5 = Inr 8
   \<and> call_loss demo_calls (loss_fn (demo_model None (Some demo_norm))) 8
        (reference [''data'' \<mapsto> 5] 5) (weights_kwargs [''data'' \<mapsto> 5]) = Inr 9
   \<and> training_step demo_calls (demo_model None (Some demo_norm)) [''data'' \<mapsto> 5] 0
       = (Inr 9, (demo_model None (Some demo_norm))\<lparr>logged := [(''train_loss'', 9, True)]\<rparr>)
   \<and> training_step demo_calls ((demo_model None (Some demo_norm))\<lparr>training := False\<rparr>)
        [''data'' \<mapsto> 5] 0
       = (Inr 9, (demo_model None (Some demo_norm))
                   \<lparr>training := False, logged := [(''valid_loss'', 9, True)]\<rparr>)"
proof -
  let ?m = "demo_model None (Some demo_norm)"
  let ?b = "[''data'' \<mapsto> 5 :: int]"
  have d: "?b ''data'' = Some 5" by simp
  have r: "encode_decode demo_calls ?m 5 = Inr 8" by (simp add: run_eval)
  have r': "encode_decode demo_calls (?m\<lparr>training := False\<rparr>) 5 = Inr 8"
    by (simp add: run_eval)
  have l: "call_loss demo_calls (loss_fn ?m) 8 (reference ?b 5) (weights_kwargs ?b) = Inr 9"
    by (simp add: run_eval)
  have l': "call_loss demo_calls (loss_fn (?m\<lparr>training := False\<rparr>)) 8 (reference ?b 5)
              (weights_kwargs ?b) = Inr 9"
    by (simp add: run_eval)
  from training_step_logs_and_returns [where train_batch = ?b and batch_idx = 0, OF d r l]
       training_step_logs_and_returns [where train_batch = ?b and batch_idx = 0, OF d r' l']
       d r l
  show ?thesis by (simp add: demo_model_def)
qed

end
